theory Spec2Isabelle
  imports Main "HOL-Library.Word"
begin

unbundle bit_operations_syntax

section \<open>Package types (src/types/component.go)\<close>

text \<open>
  Go strings are byte sequences: \<^typ>\<open>string\<close>. A Go slice is a list; a nil slice and an
  empty slice both have length 0 and are both the empty list. A pointer field is an
  \<^typ>\<open>'a option\<close>, \<^term>\<open>None\<close> being nil. Go's \<open>int\<close> is 64 bits wide.
\<close>

type_synonym go_int = "64 word"

record ZarfFile =
  Source :: string
  Shasum :: string
  Target :: string
  Executable :: bool
  Symlinks :: "string list"
  ExtractPath :: string

record ZarfChartVariable =
  Name :: string
  Description :: string
  Path :: string

record ZarfChart =
  Name :: string
  Version :: string
  URL :: string
  RepoName :: string
  GitPath :: string
  LocalPath :: string
  Namespace :: string
  ReleaseName :: string
  NoWait :: bool
  ValuesFiles :: "string list"
  Variables :: "ZarfChartVariable list"

record ZarfManifest =
  Name :: string
  Namespace :: string
  Files :: "string list"
  KustomizeAllowAnyDirectory :: bool
  Kustomizations :: "string list"
  NoWait :: bool

record ZarfContainerTarget =
  Namespace :: string
  Selector :: string
  Container :: string
  Path :: string

record ZarfDataInjection =
  Source :: string
  Target :: ZarfContainerTarget
  Compress :: bool

record ZarfComponentImport =
  Name :: string
  Path :: string
  URL :: string

record ZarfComponentOnlyCluster =
  Architecture :: string
  Distros :: "string list"

record ZarfComponentOnlyTarget =
  LocalOS :: string
  Cluster :: ZarfComponentOnlyCluster
  Flavor :: string

record DeprecatedZarfComponentScripts =
  ShowOutput :: bool
  TimeoutSeconds :: go_int
  Retry :: bool
  Prepare :: "string list"
  Before :: "string list"
  After :: "string list"

text \<open>
  An action, without its \<open>Shell\<close>, \<open>SetVariables\<close> and \<open>Wait\<close> fields (their types
  belong to packages outside these sources; no function below reads them).
\<close>

record ZarfComponentAction =
  Mute :: "bool option"
  MaxTotalSeconds :: "go_int option"
  MaxRetries :: "go_int option"
  Dir :: "string option"
  Env :: "string list"
  Cmd :: string
  DeprecatedSetVariable :: string
  Description :: string

record ZarfComponentActionDefaults =
  Mute :: bool
  MaxTotalSeconds :: go_int
  MaxRetries :: go_int
  Dir :: string
  Env :: "string list"

record ZarfComponentActionSet =
  Defaults :: ZarfComponentActionDefaults
  Before :: "ZarfComponentAction list"
  After :: "ZarfComponentAction list"
  OnSuccess :: "ZarfComponentAction list"
  OnFailure :: "ZarfComponentAction list"

record ZarfComponentActions =
  OnCreate :: ZarfComponentActionSet
  OnDeploy :: ZarfComponentActionSet
  OnRemove :: ZarfComponentActionSet

text \<open>
  \<open>extensions.ZarfComponentExtensions\<close> is declared in another package; here it is the
  list of the names of the extensions a component configures.
\<close>

type_synonym ZarfComponentExtensions = "string list"

record ZarfComponent =
  Name :: string
  Description :: string
  Default :: bool
  Required :: "bool option"
  Only :: ZarfComponentOnlyTarget
  DeprecatedGroup :: string
  DeprecatedCosignKeyPath :: string
  Import :: ZarfComponentImport
  Manifests :: "ZarfManifest list"
  Charts :: "ZarfChart list"
  DataInjections :: "ZarfDataInjection list"
  Files :: "ZarfFile list"
  Images :: "string list"
  Repos :: "string list"
  Extensions :: ZarfComponentExtensions
  DeprecatedScripts :: DeprecatedZarfComponentScripts
  Actions :: ZarfComponentActions

text \<open>\<open>ZarfComponent.RequiresCluster\<close>: the five length tests, then their disjunction.\<close>

definition RequiresCluster :: "ZarfComponent \<Rightarrow> bool" where
  "RequiresCluster c =
     (let hasImages = length (Images c) > 0;
          hasCharts = length (Charts c) > 0;
          hasManifests = length (Manifests c) > 0;
          hasRepos = length (Repos c) > 0;
          hasDataInjections = length (DataInjections c) > 0
      in if hasImages \<or> hasCharts \<or> hasManifests \<or> hasRepos \<or> hasDataInjections
         then True
         else False)"

text \<open>\<open>ZarfComponent.IsRequired\<close>: the pointer's target, \<open>false\<close> for a nil pointer.\<close>

definition IsRequired :: "ZarfComponent \<Rightarrow> bool" where
  "IsRequired c = (case Required c of Some r \<Rightarrow> r | None \<Rightarrow> False)"

text \<open>Zero values, and the component that has a name, a default and a required flag only.\<close>

definition emptyOnly :: ZarfComponentOnlyTarget where
  "emptyOnly = \<lparr> LocalOS = [], Cluster = \<lparr> Architecture = [], Distros = [] \<rparr>, Flavor = [] \<rparr>"

definition emptyActionSet :: ZarfComponentActionSet where
  "emptyActionSet =
     \<lparr> Defaults = \<lparr> ZarfComponentActionDefaults.Mute = False, MaxTotalSeconds = 0,
                     MaxRetries = 0, Dir = [], Env = [] \<rparr>,
       Before = [], After = [], OnSuccess = [], OnFailure = [] \<rparr>"

definition emptyScripts :: DeprecatedZarfComponentScripts where
  "emptyScripts =
     \<lparr> ShowOutput = False, TimeoutSeconds = 0, Retry = False, Prepare = [],
       DeprecatedZarfComponentScripts.Before = [],
       DeprecatedZarfComponentScripts.After = [] \<rparr>"

definition bareComponent :: "string \<Rightarrow> bool \<Rightarrow> bool option \<Rightarrow> ZarfComponent" where
  "bareComponent n d r =
     \<lparr> Name = n, Description = [], Default = d, Required = r, Only = emptyOnly,
       DeprecatedGroup = [], DeprecatedCosignKeyPath = [],
       Import = \<lparr> ZarfComponentImport.Name = [], Path = [], URL = [] \<rparr>,
       Manifests = [], Charts = [], DataInjections = [], Files = [], Images = [],
       Repos = [], Extensions = [], DeprecatedScripts = emptyScripts,
       Actions = \<lparr> OnCreate = emptyActionSet, OnDeploy = emptyActionSet,
                   OnRemove = emptyActionSet \<rparr> \<rparr>"

section \<open>Image references and the pod admission hook (src/internal/agent/hooks)\<close>

text \<open>
  Of the admission hook, the sources hold the test \<open>TestPodMutationWebhook\<close> only
  (src/internal/agent/hooks/pods_test.go). The hook, the rewrite of image references and the
  checksum are modelled below, from the spec's section 4.3 and the vectors of the test.
\<close>

text \<open>
  Modelled from the spec: the CRC-32 checksum with the IEEE polynomial (the helper that
  wraps Go's \<open>crc32.ChecksumIEEE\<close> is missing from the sources). A \<open>uint32\<close> is a natural
  number here: the algorithm shifts right, masks and xors only, so nothing wraps around.
  The table entry of a byte is eight shift steps; a byte of input is folded in by
  \<open>tab[byte(crc) ^ v] ^ (crc >> 8)\<close>; the register is complemented before and after.
\<close>

definition IEEE :: nat where
  "IEEE = 0xedb88320"

definition shiftStep :: "nat \<Rightarrow> nat" where
  "shiftStep crc = (if crc mod 2 = 1 then (crc div 2) XOR IEEE else crc div 2)"

definition tableEntry :: "nat \<Rightarrow> nat" where
  "tableEntry i = (shiftStep ^^ 8) i"

definition updateByte :: "nat \<Rightarrow> nat \<Rightarrow> nat" where
  "updateByte crc v = tableEntry ((crc mod 256) XOR v) XOR (crc div 256)"

definition ChecksumIEEE :: "string \<Rightarrow> nat" where
  "ChecksumIEEE p = (foldl updateByte 0xFFFFFFFF (map of_char p)) XOR 0xFFFFFFFF"

text \<open>The verb \<open>%d\<close> of \<open>fmt.Sprintf\<close> on a non-negative integer.\<close>

function decimal :: "nat \<Rightarrow> string" where
  "decimal n =
     (if n < 10 then [''0123456789'' ! n]
      else decimal (n div 10) @ [''0123456789'' ! (n mod 10)])"
  by pat_completeness auto
termination
  by (relation "measure id") auto

declare decimal.simps [simp del]

text \<open>
  Modelled from the spec: the parts of an image reference (the parser of references is
  missing from the sources). A reference is read as the form of the spec's section 4.3
  reads it, \<open><namespace-or-library>/<name>:<tag>\<close>: an optional namespace, a name and an
  optional tag; the spec gives a reference no other part. A reference without a namespace
  gets the namespace \<open>library\<close>; a reference without a tag gets the tag \<open>latest\<close>, as in
  the vectors of \<open>TestPodMutationWebhook\<close>.
\<close>

definition imagePath :: "string \<Rightarrow> string" where
  "imagePath ref =
     (let path = takeWhile (\<lambda>c. c \<noteq> CHR '':'') ref
      in if CHR ''/'' \<in> set path then path else ''library/'' @ path)"

definition imageTag :: "string \<Rightarrow> string" where
  "imageTag ref =
     (let t = dropWhile (\<lambda>c. c \<noteq> CHR '':'') ref
      in if t = [] \<or> tl t = [] then ''latest'' else tl t)"

text \<open>
  Modelled from the spec: the bytes under the checksum. The spec's section 4.3 takes the
  checksum over the full original reference. The vectors of \<open>TestPodMutationWebhook\<close> are
  three references without a namespace, and their checksums are those of the reference
  behind \<open>docker.io/library/\<close>: such a reference is qualified so, and any other reference
  is taken as it is written, as the spec says.
\<close>

definition checksumInput :: "string \<Rightarrow> string" where
  "checksumInput ref =
     (if CHR ''/'' \<in> set (takeWhile (\<lambda>c. c \<noteq> CHR '':'') ref) then ref
      else ''docker.io/library/'' @ ref)"

text \<open>
  Modelled from the spec: the rewrite of an image reference for the in-cluster registry
  (missing from the sources), of the form
  \<open><registry>/<namespace-or-library>/<name>:<tag>-zarf-<crc32>\<close> of the spec's section 4.3.
\<close>

definition ImageTransformHost :: "string \<Rightarrow> string \<Rightarrow> string" where
  "ImageTransformHost targetHost srcReference =
     targetHost @ ''/'' @ imagePath srcReference @ '':'' @ imageTag srcReference @
     ''-zarf-'' @ decimal (ChecksumIEEE (checksumInput srcReference))"

text \<open>
  The Kubernetes pod (\<open>corev1.Pod\<close>, a type of a library), as far as the test and the hook
  use it. \<open>Labels\<close> is a Go map behind a possibly nil reference; \<open>ImagePullSecrets\<close> holds
  the names of the referenced secrets.
\<close>

record Container =
  Name :: string
  Image :: string

record EphemeralContainer =
  Name :: string
  Image :: string
  TargetContainerName :: string

record PodSpec =
  InitContainers :: "Container list"
  Containers :: "Container list"
  EphemeralContainers :: "EphemeralContainer list"
  ImagePullSecrets :: "string list"

record Pod =
  Labels :: "(string \<rightharpoonup> string) option"
  Spec :: PodSpec

text \<open>
  The patch operations of package \<open>operations\<close>, as the test builds them with
  \<open>ReplacePatchOperation\<close> and \<open>AddPatchOperation\<close>; a value is a string, a list of secret
  references or a map of labels.
\<close>

datatype PatchValue =
  StringValue string
| LocalObjectReferences "string list"
| StringMap "string \<rightharpoonup> string"

record PatchOperation =
  Op :: string
  Path :: string
  Value :: PatchValue

definition ReplacePatchOperation :: "string \<Rightarrow> PatchValue \<Rightarrow> PatchOperation" where
  "ReplacePatchOperation path v = \<lparr> Op = ''replace'', Path = path, Value = v \<rparr>"

definition AddPatchOperation :: "string \<Rightarrow> PatchValue \<Rightarrow> PatchOperation" where
  "AddPatchOperation path v = \<lparr> Op = ''add'', Path = path, Value = v \<rparr>"

record Result =
  Allowed :: bool
  PatchOps :: "PatchOperation list"

text \<open>
  Modelled from the spec: the mutation of a pod on CREATE (the hook is missing from the
  sources), after the spec's section 4.3 and scenarios S1 to S3; the definitions from here
  to \<open>mutatePod\<close> are its parts. A pod that carries the label \<open>zarf-agent=patched\<close> gets no
  patch. Any other pod gets, in this order: the replacement of the image pull secrets by
  the reference to \<open>private-registry\<close>, one replacement per init container, per ephemeral
  container and per container, and the label operation (an \<open>add\<close> of the whole map of
  labels when the pod has none, a \<open>replace\<close> of the one label otherwise). The response is
  always allowed.
\<close>

definition ZarfImagePullSecretName :: string where
  "ZarfImagePullSecretName = ''private-registry''"

definition hasPatchedLabel :: "Pod \<Rightarrow> bool" where
  "hasPatchedLabel pod =
     (case Labels pod of None \<Rightarrow> False | Some m \<Rightarrow> m ''zarf-agent'' = Some ''patched'')"

text \<open>The path of the image of the container at an index of one of the three lists.\<close>

definition imagePathOf :: "string \<Rightarrow> nat \<Rightarrow> string" where
  "imagePathOf field idx = ''/spec/'' @ field @ ''/'' @ decimal idx @ ''/image''"

text \<open>One replace operation per container of a list, by rising index from \<open>idx\<close>.\<close>

fun imagePatches :: "string \<Rightarrow> string \<Rightarrow> nat \<Rightarrow> string list \<Rightarrow> PatchOperation list" where
  "imagePatches registryURL field idx [] = []"
| "imagePatches registryURL field idx (img # rest) =
     ReplacePatchOperation (imagePathOf field idx)
       (StringValue (ImageTransformHost registryURL img))
     # imagePatches registryURL field (Suc idx) rest"

definition labelPatch :: "(string \<rightharpoonup> string) option \<Rightarrow> PatchOperation" where
  "labelPatch labels =
     (case labels of
        None \<Rightarrow> AddPatchOperation ''/metadata/labels'' (StringMap [''zarf-agent'' \<mapsto> ''patched''])
      | Some _ \<Rightarrow> ReplacePatchOperation ''/metadata/labels/zarf-agent'' (StringValue ''patched''))"

text \<open>The response of the hook to the CREATE of a pod, for the address of the registry.\<close>

definition mutatePod :: "string \<Rightarrow> Pod \<Rightarrow> Result" where
  "mutatePod registryURL pod =
     (if hasPatchedLabel pod then \<lparr> Allowed = True, PatchOps = [] \<rparr>
      else
        \<lparr> Allowed = True,
          PatchOps =
            [ReplacePatchOperation ''/spec/imagePullSecrets''
               (LocalObjectReferences [ZarfImagePullSecretName])]
            @ imagePatches registryURL ''initContainers'' 0
                (map Container.Image (InitContainers (Spec pod)))
            @ imagePatches registryURL ''ephemeralContainers'' 0
                (map EphemeralContainer.Image (EphemeralContainers (Spec pod)))
            @ imagePatches registryURL ''containers'' 0
                (map Container.Image (Containers (Spec pod)))
            @ [labelPatch (Labels pod)] \<rparr>)"

text \<open>
  Modelled from the spec: the application of the JSON patch of a response (the spec's
  section 6) to the pod, which the API server does, outside the repository. An operation
  addresses the image pull secrets, the map of labels, one label, or the image of a
  container that exists; an operation that addresses anything else fails (\<^term>\<open>None\<close>), as
  does the replacement of a label in a pod without labels.
\<close>

definition setImageAt :: "Container list \<Rightarrow> nat \<Rightarrow> string \<Rightarrow> Container list" where
  "setImageAt cs i v = cs[i := (cs ! i)\<lparr> Container.Image := v \<rparr>]"

definition setEphemeralImageAt ::
  "EphemeralContainer list \<Rightarrow> nat \<Rightarrow> string \<Rightarrow> EphemeralContainer list" where
  "setEphemeralImageAt cs i v = cs[i := (cs ! i)\<lparr> EphemeralContainer.Image := v \<rparr>]"

definition indexOfPath :: "string \<Rightarrow> string \<Rightarrow> nat \<Rightarrow> nat option" where
  "indexOfPath field path n = find (\<lambda>i. path = imagePathOf field i) [0..<n]"

definition applyOperation :: "Pod \<Rightarrow> PatchOperation \<Rightarrow> Pod option" where
  "applyOperation pod operation =
     (let path = PatchOperation.Path operation;
          v = PatchOperation.Value operation;
          spec = Spec pod
      in
      if path = ''/spec/imagePullSecrets'' then
        (case v of
           LocalObjectReferences names \<Rightarrow> Some (pod\<lparr> Spec := spec\<lparr> ImagePullSecrets := names \<rparr> \<rparr>)
         | _ \<Rightarrow> None)
      else if path = ''/metadata/labels'' then
        (case v of StringMap m \<Rightarrow> Some (pod\<lparr> Labels := Some m \<rparr>) | _ \<Rightarrow> None)
      else if path = ''/metadata/labels/zarf-agent'' then
        (case (Labels pod, v) of
           (Some m, StringValue l) \<Rightarrow> Some (pod\<lparr> Labels := Some (m(''zarf-agent'' \<mapsto> l)) \<rparr>)
         | _ \<Rightarrow> None)
      else
        (case v of
           StringValue img \<Rightarrow>
             (case indexOfPath ''initContainers'' path (length (InitContainers spec)) of
                Some i \<Rightarrow>
                  Some (pod\<lparr> Spec := spec\<lparr> InitContainers :=
                                 setImageAt (InitContainers spec) i img \<rparr> \<rparr>)
              | None \<Rightarrow>
             (case indexOfPath ''ephemeralContainers'' path (length (EphemeralContainers spec)) of
                Some i \<Rightarrow>
                  Some (pod\<lparr> Spec := spec\<lparr> EphemeralContainers :=
                                 setEphemeralImageAt (EphemeralContainers spec) i img \<rparr> \<rparr>)
              | None \<Rightarrow>
             (case indexOfPath ''containers'' path (length (Containers spec)) of
                Some i \<Rightarrow>
                  Some (pod\<lparr> Spec := spec\<lparr> Containers :=
                                 setImageAt (Containers spec) i img \<rparr> \<rparr>)
              | None \<Rightarrow> None)))
         | _ \<Rightarrow> None))"

fun applyPatch :: "Pod \<Rightarrow> PatchOperation list \<Rightarrow> Pod option" where
  "applyPatch pod [] = Some pod"
| "applyPatch pod (operation # rest) =
     (case applyOperation pod operation of
        None \<Rightarrow> None
      | Some pod' \<Rightarrow> applyPatch pod' rest)"

text \<open>Two pods of the same shape: the same labels and as many containers of each kind.\<close>

definition sameShape :: "Pod \<Rightarrow> Pod \<Rightarrow> bool" where
  "sameShape p q =
     (Labels q = Labels p
      \<and> length (InitContainers (Spec q)) = length (InitContainers (Spec p))
      \<and> length (EphemeralContainers (Spec q)) = length (EphemeralContainers (Spec p))
      \<and> length (Containers (Spec q)) = length (Containers (Spec p)))"

text \<open>One admission: the pod with the hook's patch applied.\<close>

definition admit :: "string \<Rightarrow> Pod \<Rightarrow> Pod option" where
  "admit registryURL pod = applyPatch pod (PatchOps (mutatePod registryURL pod))"

text \<open>The pods of the three cases of \<open>TestPodMutationWebhook\<close>.\<close>

definition podWithLabel :: Pod where
  "podWithLabel =
     \<lparr> Labels = Some [''should-be'' \<mapsto> ''mutated''],
       Spec = \<lparr> InitContainers = [\<lparr> Container.Name = [], Image = ''busybox'' \<rparr>],
                Containers = [\<lparr> Container.Name = [], Image = ''nginx'' \<rparr>],
                EphemeralContainers =
                  [\<lparr> EphemeralContainer.Name = [], Image = ''alpine'', TargetContainerName = [] \<rparr>],
                ImagePullSecrets = [] \<rparr> \<rparr>"

definition podPatched :: Pod where
  "podPatched =
     \<lparr> Labels = Some [''zarf-agent'' \<mapsto> ''patched''],
       Spec = \<lparr> InitContainers = [],
                Containers = [\<lparr> Container.Name = [], Image = ''nginx'' \<rparr>],
                EphemeralContainers = [], ImagePullSecrets = [] \<rparr> \<rparr>"

definition podNoLabels :: Pod where
  "podNoLabels =
     \<lparr> Labels = None,
       Spec = \<lparr> InitContainers = [],
                Containers = [\<lparr> Container.Name = [], Image = ''nginx'' \<rparr>],
                EphemeralContainers = [], ImagePullSecrets = [] \<rparr> \<rparr>"

section \<open>Component selection (src/pkg/packager/filters/included.go)\<close>

text \<open>
  The select states \<open>unknown\<close>, \<open>included\<close> and \<open>excluded\<close> are constants of package
  \<open>filters\<close> used by \<open>IncludedFilter.Apply\<close>; their declaration is outside these sources.
\<close>

datatype selectState = unknown | included | excluded

text \<open>
  The helper \<open>includedOrExcluded\<close> is called by \<open>Apply\<close> and declared outside these
  sources: \<open>Apply\<close> takes it as its first argument. It gets a component name and the
  requested names, and returns a select state and the request that decided it.
\<close>

type_synonym selector = "string \<Rightarrow> string list \<Rightarrow> selectState \<times> string"

text \<open>
  Modelled from the spec: the helper \<open>includedOrExcluded\<close> (missing from the sources), after
  the spec's section 4.6, stage 3: a component is excluded if a request is its name
  prefixed with \<open>-\<close>, included if a request is its name, unknown otherwise. It is used for
  concrete inputs only; the theorems about \<open>Apply\<close> hold for every helper.
\<close>

definition includedOrExcluded :: selector where
  "includedOrExcluded componentName requestedComponentNames =
     (if (CHR ''-'' # componentName) \<in> set requestedComponentNames
        then (excluded, CHR ''-'' # componentName)
      else if componentName \<in> set requestedComponentNames
        then (included, componentName)
      else (unknown, []))"

record IncludedFilter =
  requestedComponents :: "string list"

text \<open>\<open>len(f.requestedComponents) > 0 && f.requestedComponents[0] != ""\<close>\<close>

definition isPartial :: "IncludedFilter \<Rightarrow> bool" where
  "isPartial f =
     (case requestedComponents f of [] \<Rightarrow> False | r # _ \<Rightarrow> r \<noteq> [])"

text \<open>
  The loop of \<open>Apply\<close> over \<open>allComponents\<close>, with \<open>result\<close> as the accumulator. Each
  round starts from \<open>selectState := unknown\<close>; \<open>continue\<close> is the recursive call with the
  accumulator unchanged.
\<close>

fun Apply_loop ::
  "selector \<Rightarrow> IncludedFilter \<Rightarrow> ZarfComponent list \<Rightarrow> ZarfComponent list \<Rightarrow> ZarfComponent list"
where
  "Apply_loop sel f [] result = result"
| "Apply_loop sel f (component # rest) result =
     (if isPartial f then
        (let selectState = fst (sel (ZarfComponent.Name component) (requestedComponents f)) in
         if selectState = excluded then Apply_loop sel f rest result
         else if selectState = included then Apply_loop sel f rest (result @ [component])
         else Apply_loop sel f rest result)
      else
        (let selectState = included in
         if selectState = included then Apply_loop sel f rest (result @ [component])
         else Apply_loop sel f rest result))"

text \<open>\<open>IncludedFilter.Apply\<close> returns the result and a nil error (\<^term>\<open>None\<close>).\<close>

definition Apply ::
  "selector \<Rightarrow> IncludedFilter \<Rightarrow> ZarfComponent list \<Rightarrow> ZarfComponent list \<times> string option"
where
  "Apply sel f allComponents = (Apply_loop sel f allComponents [], None)"

section \<open>Logger binding (src/pkg/logging/logging.go)\<close>

text \<open>
  A \<open>context.Context\<close> is a chain of \<open>WithValue\<close> nodes above a root. A key is either the
  value \<open>contextKey{}\<close> of the unexported type of package \<open>logging\<close>, or a key of another
  type. A stored value is an interface value: a \<open>*slog.Logger\<close> (possibly a nil pointer, which
  is still a non-nil interface value), or a value of another type. Contexts are non-nil.
\<close>

datatype writer = Discard | Stream nat

datatype handler = JSONHandler writer | OtherHandler nat

datatype Logger = New handler

datatype key = contextKey | foreignKey string

datatype any = LoggerPtr "Logger option" | OtherValue string

datatype Context = Background | WithValue Context key any

text \<open>\<open>ctx.Value(key)\<close>: the nearest binding of the key; \<^term>\<open>None\<close> is the nil interface.\<close>

fun Value :: "Context \<Rightarrow> key \<Rightarrow> any option" where
  "Value Background k = None"
| "Value (WithValue parent k' v) k = (if k = k' then Some v else Value parent k)"

definition NewContext :: "Context \<Rightarrow> Logger option \<Rightarrow> Context" where
  "NewContext ctx log = WithValue ctx contextKey (LoggerPtr log)"

datatype panic = Panic string

text \<open>
  \<open>FromContextOrDiscard\<close> returns a \<open>*slog.Logger\<close> or panics when the bound value is not
  a logger.
\<close>

definition FromContextOrDiscard :: "Context \<Rightarrow> panic + Logger option" where
  "FromContextOrDiscard ctx =
     (case Value ctx contextKey of
        None \<Rightarrow> Inr (Some (New (JSONHandler Discard)))
      | Some v \<Rightarrow>
          (case v of
             LoggerPtr log \<Rightarrow> Inr log
           | OtherValue _ \<Rightarrow> Inl (Panic ''unexpected logger type'')))"

text \<open>The keys bound along a context, and the contexts whose loggers all came from \<open>NewContext\<close>.\<close>

fun boundKeys :: "Context \<Rightarrow> key list" where
  "boundKeys Background = []"
| "boundKeys (WithValue parent k v) = k # boundKeys parent"

fun viaNewContext :: "Context \<Rightarrow> bool" where
  "viaNewContext Background = True"
| "viaNewContext (WithValue parent k v) =
     ((case k of
         contextKey \<Rightarrow> (case v of LoggerPtr _ \<Rightarrow> True | OtherValue _ \<Rightarrow> False)
       | foreignKey _ \<Rightarrow> True) \<and> viaNewContext parent)"

text \<open>The contexts in which every logger bound by \<open>NewContext\<close> is a non-nil pointer.\<close>

fun nonNilLoggers :: "Context \<Rightarrow> bool" where
  "nonNilLoggers Background = True"
| "nonNilLoggers (WithValue parent k v) =
     ((case k of
         contextKey \<Rightarrow> (case v of LoggerPtr log \<Rightarrow> log \<noteq> None | OtherValue _ \<Rightarrow> False)
       | foreignKey _ \<Rightarrow> True) \<and> nonNilLoggers parent)"

section \<open>Terminal log handler (src/pkg/logging/handler.go)\<close>

text \<open>
  \<open>slog.Level\<close> is an integer; the four named levels are -4, 0, 4 and 8. The functions of
  package \<open>message\<close> write to the terminal: a call is recorded as a value, in the order made.
  \<open>Fatal\<close> is the entry point of the package above the warning severity; the handler has
  no call to it.
\<close>

type_synonym Level = int

definition LevelDebug :: Level where "LevelDebug = -4"
definition LevelInfo :: Level where "LevelInfo = 0"
definition LevelWarn :: Level where "LevelWarn = 4"
definition LevelError :: Level where "LevelError = 8"

datatype message_call = Debug string | Info string | Warn string | Fatal string

record Record =
  Level :: Level
  Message :: string

record PtermHandler =
  attrs :: "(string \<times> string) list"
  group :: string

definition Enabled :: "PtermHandler \<Rightarrow> Context \<Rightarrow> Level \<Rightarrow> bool" where
  "Enabled h ctx l = True"

text \<open>\<open>Handle\<close> returns its error (\<^term>\<open>None\<close> is nil) and the calls it made.\<close>

definition Handle :: "PtermHandler \<Rightarrow> Context \<Rightarrow> Record \<Rightarrow> string option \<times> message_call list" where
  "Handle h ctx r =
     (None,
      if Level r = LevelDebug then [Debug (Message r)]
      else if Level r = LevelInfo then [Info (Message r)]
      else if Level r = LevelWarn then [Warn (Message r)]
      else if Level r = LevelError then [Warn (Message r)]
      else [])"

section \<open>Tunnel overrides of the connect command (src/cmd/connect.go)\<close>

text \<open>
  \<open>cluster.TunnelInfo\<close> is declared outside these sources; the command reads and writes the
  five fields below, and whatever else the struct holds is the extension of the record.
\<close>

record TunnelInfo =
  ResourceType :: string
  ResourceName :: string
  Namespace :: string
  LocalPort :: go_int
  RemotePort :: go_int

text \<open>
  The flag registration of \<open>init\<close>: the value of \<open>zt\<close> when no flag is given. The constants
  \<open>cluster.SvcResource\<close> and \<open>cluster.ZarfNamespaceName\<close> are declared outside these sources
  and are parameters here.
\<close>

definition flagDefaults :: "string \<Rightarrow> string \<Rightarrow> TunnelInfo" where
  "flagDefaults SvcResource ZarfNamespaceName =
     \<lparr> ResourceType = SvcResource, ResourceName = [], Namespace = ZarfNamespaceName,
       LocalPort = 0, RemotePort = 0 \<rparr>"

text \<open>
  The five assignments of \<open>connectCmd\<close> between \<open>NewTargetTunnelInfo\<close> and
  \<open>ConnectTunnelInfo\<close>, in the order of the source: \<open>zt\<close> holds the flags, \<open>ti\<close> the tunnel
  info of the target.
\<close>

definition connectOverrides ::
  "string \<Rightarrow> string \<Rightarrow> TunnelInfo \<Rightarrow> 'a TunnelInfo_scheme \<Rightarrow> 'a TunnelInfo_scheme"
where
  "connectOverrides SvcResource ZarfNamespaceName zt ti =
     (let ti = (if ResourceType zt \<noteq> SvcResource
                then ti\<lparr> ResourceType := ResourceType zt \<rparr> else ti);
          ti = (if ResourceName zt \<noteq> []
                then ti\<lparr> ResourceName := ResourceName zt \<rparr> else ti);
          ti = (if TunnelInfo.Namespace zt \<noteq> ZarfNamespaceName
                then ti\<lparr> TunnelInfo.Namespace := TunnelInfo.Namespace zt \<rparr> else ti);
          ti = (if LocalPort zt \<noteq> 0
                then ti\<lparr> LocalPort := LocalPort zt \<rparr> else ti);
          ti = (if RemotePort zt \<noteq> 0
                then ti\<lparr> RemotePort := RemotePort zt \<rparr> else ti)
      in ti)"

section \<open>Theorems\<close>

text \<open>
  C6. A component requires a cluster connection if and only if at least one of its
  images, charts, manifests, repos or data injections lists is non-empty. The files, the
  actions and the extensions of a component have no influence on the answer: replacing
  them by any other value leaves it unchanged, so a component whose five lists are empty
  never requires a cluster, whatever its files, actions and extensions are.
\<close>

theorem RequiresCluster_iff:
  "RequiresCluster c =
     (length (Images c) > 0 \<or> length (Charts c) > 0 \<or> length (Manifests c) > 0 \<or>
      length (Repos c) > 0 \<or> length (DataInjections c) > 0)
   \<and> RequiresCluster (c\<lparr> Files := fs, Extensions := es, Actions := acts \<rparr>) = RequiresCluster c
   \<and> RequiresCluster
         ((bareComponent n d r)\<lparr> Files := fs, Extensions := es, Actions := acts \<rparr>) = False"
  by (simp add: RequiresCluster_def bareComponent_def)

subsection \<open>The included filter\<close>

lemma Apply_loop_partial:
  "isPartial f \<Longrightarrow>
   Apply_loop sel f cs acc =
     acc @ filter (\<lambda>c. fst (sel (ZarfComponent.Name c) (requestedComponents f)) = included) cs"
  by (induction cs arbitrary: acc) (simp_all add: Let_def)

lemma Apply_loop_all:
  "\<not> isPartial f \<Longrightarrow> Apply_loop sel f cs acc = acc @ cs"
  by (induction cs arbitrary: acc) simp_all

text \<open>
  C1, as stated, fails. For the components \<open>[a, b, c]\<close> where only \<open>b\<close> is required, the
  included filter with the selector list \<open>a\<close> returns \<open>[a]\<close>: \<open>b\<close> matches no selector, is
  required, and is absent from the output.
\<close>

theorem Apply_drops_required_counterexample:
  "fst (Apply includedOrExcluded \<lparr> requestedComponents = [''a''] \<rparr>
         [bareComponent ''a'' False None, bareComponent ''b'' False (Some True),
          bareComponent ''c'' False None])
     = [bareComponent ''a'' False None]
   \<and> IsRequired (bareComponent ''b'' False (Some True))
   \<and> fst (includedOrExcluded ''b'' [''a'']) = unknown
   \<and> bareComponent ''b'' False (Some True) \<notin>
       set (fst (Apply includedOrExcluded \<lparr> requestedComponents = [''a''] \<rparr>
         [bareComponent ''a'' False None, bareComponent ''b'' False (Some True),
          bareComponent ''c'' False None]))"
  by (simp add: Apply_def isPartial_def includedOrExcluded_def IsRequired_def bareComponent_def)

text \<open>
  C1, amended. Whenever the selector list is not empty and its first entry is not the empty
  string, the output of the included filter is exactly the components whose select state is
  \<open>included\<close>, in declaration order, with a nil error: a component is in the output if and
  only if it is declared and its select state is \<open>included\<close>. A component that matches no
  selector is dropped, required or not; the field \<open>required\<close> is not read.
\<close>

theorem Apply_partial_keeps_included_only:
  "requestedComponents f = r # rs \<Longrightarrow> r \<noteq> [] \<Longrightarrow>
     Apply sel f cs =
       (filter (\<lambda>c. fst (sel (ZarfComponent.Name c) (requestedComponents f)) = included) cs, None)
     \<and> (c \<in> set (fst (Apply sel f cs)) \<longleftrightarrow>
          c \<in> set cs \<and> fst (sel (ZarfComponent.Name c) (requestedComponents f)) = included)"
proof -
  assume "requestedComponents f = r # rs" "r \<noteq> []"
  then have "isPartial f" by (simp add: isPartial_def)
  then show ?thesis by (simp add: Apply_def Apply_loop_partial)
qed

text \<open>The amended C1 at the components \<open>[a, b, c]\<close> and the selector list \<open>a\<close>.\<close>

theorem Apply_partial_keeps_included_only_witness:
  "requestedComponents \<lparr> requestedComponents = [''a''] \<rparr> = ''a'' # [] \<and> ''a'' \<noteq> []
   \<and> Apply includedOrExcluded \<lparr> requestedComponents = [''a''] \<rparr>
         [bareComponent ''a'' False None, bareComponent ''b'' False (Some True),
          bareComponent ''c'' False None]
     = ([bareComponent ''a'' False None], None)"
proof -
  have p: "requestedComponents \<lparr> requestedComponents = [''a''] \<rparr> = ''a'' # []" "''a'' \<noteq> []"
    by simp_all
  show ?thesis
    using p Apply_partial_keeps_included_only [OF p, of includedOrExcluded
        "[bareComponent ''a'' False None, bareComponent ''b'' False (Some True),
          bareComponent ''c'' False None]"]
    by (simp add: includedOrExcluded_def bareComponent_def)
qed

text \<open>
  C2, as stated, fails. With an empty selector list, a component with \<open>default = false\<close>
  that nothing selects is in the output of the included filter.
\<close>

theorem Apply_ignores_default_counterexample:
  "fst (Apply includedOrExcluded \<lparr> requestedComponents = [] \<rparr>
         [bareComponent ''c'' False None]) = [bareComponent ''c'' False None]
   \<and> Default (bareComponent ''c'' False None) = False"
  by (simp add: Apply_def isPartial_def bareComponent_def)

text \<open>
  C2, amended. When no selector is supplied (the selector list is empty, or its first entry
  is the empty string), the included filter returns every declared component, in
  declaration order and with a nil error, whatever its \<open>default\<close> field is.
\<close>

theorem Apply_without_selector_keeps_all:
  "\<not> isPartial f \<Longrightarrow> Apply sel f cs = (cs, None)"
  by (simp add: Apply_def Apply_loop_all)

text \<open>The amended C2 at the empty selector list and components of both defaults.\<close>

theorem Apply_without_selector_keeps_all_witness:
  "\<not> isPartial \<lparr> requestedComponents = [] \<rparr>
   \<and> Apply includedOrExcluded \<lparr> requestedComponents = [] \<rparr>
         [bareComponent ''c'' False None, bareComponent ''d'' True None]
     = ([bareComponent ''c'' False None, bareComponent ''d'' True None], None)"
proof -
  have p: "\<not> isPartial \<lparr> requestedComponents = [] \<rparr>"
    by (simp add: isPartial_def)
  show ?thesis
    using p Apply_without_selector_keeps_all [OF p, of includedOrExcluded
        "[bareComponent ''c'' False None, bareComponent ''d'' True None]"]
    by simp
qed

subsection \<open>The logger binding\<close>

lemma Value_unbound: "contextKey \<notin> set (boundKeys ctx) \<Longrightarrow> Value ctx contextKey = None"
  by (induction ctx) auto

lemma Value_viaNewContext:
  "viaNewContext ctx \<Longrightarrow>
   Value ctx contextKey = None \<or> (\<exists>l. Value ctx contextKey = Some (LoggerPtr l))"
  by (induction ctx) (auto split: key.splits any.splits)

lemma Value_nonNilLoggers:
  "nonNilLoggers ctx \<Longrightarrow>
   Value ctx contextKey = None \<or> (\<exists>l. Value ctx contextKey = Some (LoggerPtr (Some l)))"
  by (induction ctx) (auto split: key.splits any.splits)

text \<open>
  C8, as stated, fails. After \<open>NewContext\<close> has stored a nil logger, in a context built by
  \<open>NewContext\<close> alone, \<open>FromContextOrDiscard\<close> returns the nil pointer: the caller does not
  receive a usable logger.
\<close>

theorem FromContextOrDiscard_nil_counterexample:
  "viaNewContext (NewContext Background None)
   \<and> FromContextOrDiscard (NewContext Background None) = Inr None"
  by (simp add: FromContextOrDiscard_def NewContext_def)

text \<open>
  C8, amended. The logger binding round-trips: \<open>FromContextOrDiscard (NewContext ctx log)\<close>
  returns exactly \<open>log\<close>, for every context and every logger pointer, nil included. In a
  context where nothing is bound to the key of the package, it returns a logger (not nil, no
  panic) whose handler writes JSON to \<open>io.Discard\<close>. In every context whose bindings of that
  key were made by \<open>NewContext\<close>, it returns without a panic; and when none of the loggers
  stored by \<open>NewContext\<close> is nil, the logger it returns is not nil, so the caller receives a
  usable logger.
\<close>

theorem FromContextOrDiscard_roundtrip_total:
  "FromContextOrDiscard (NewContext ctx log) = Inr log
   \<and> (contextKey \<notin> set (boundKeys ctx) \<longrightarrow>
        FromContextOrDiscard ctx = Inr (Some (New (JSONHandler Discard))))
   \<and> (viaNewContext ctx \<longrightarrow> (\<exists>l. FromContextOrDiscard ctx = Inr l))
   \<and> (nonNilLoggers ctx \<longrightarrow> (\<exists>l. FromContextOrDiscard ctx = Inr (Some l)))"
proof (intro conjI impI)
  show "FromContextOrDiscard (NewContext ctx log) = Inr log"
    by (simp add: FromContextOrDiscard_def NewContext_def)
next
  assume "contextKey \<notin> set (boundKeys ctx)"
  then show "FromContextOrDiscard ctx = Inr (Some (New (JSONHandler Discard)))"
    by (simp add: FromContextOrDiscard_def Value_unbound)
next
  assume "viaNewContext ctx"
  from Value_viaNewContext [OF this] show "\<exists>l. FromContextOrDiscard ctx = Inr l"
    by (auto simp: FromContextOrDiscard_def)
next
  assume "nonNilLoggers ctx"
  from Value_nonNilLoggers [OF this] show "\<exists>l. FromContextOrDiscard ctx = Inr (Some l)"
    by (auto simp: FromContextOrDiscard_def)
qed

text \<open>
  The amended C8 at a context that binds a key of another package only, and a logger with a
  handler of its own.
\<close>

theorem FromContextOrDiscard_roundtrip_total_witness:
  "FromContextOrDiscard
     (NewContext (WithValue Background (foreignKey ''trace'') (OtherValue ''t1''))
        (Some (New (OtherHandler 7))))
     = Inr (Some (New (OtherHandler 7)))
   \<and> contextKey \<notin> set (boundKeys (WithValue Background (foreignKey ''trace'') (OtherValue ''t1'')))
   \<and> viaNewContext (WithValue Background (foreignKey ''trace'') (OtherValue ''t1''))
   \<and> nonNilLoggers (WithValue Background (foreignKey ''trace'') (OtherValue ''t1''))
   \<and> FromContextOrDiscard (WithValue Background (foreignKey ''trace'') (OtherValue ''t1''))
     = Inr (Some (New (JSONHandler Discard)))"
  using FromContextOrDiscard_roundtrip_total
    [of "WithValue Background (foreignKey ''trace'') (OtherValue ''t1'')"
        "Some (New (OtherHandler 7))"]
  by simp

subsection \<open>The terminal log handler\<close>

text \<open>
  C10, as stated, fails. A record at level 2, which is none of the four named levels, is
  enabled and handled without an error, and makes no call at all: the record is dropped.
\<close>

theorem PtermHandler_drops_level_counterexample:
  "Enabled \<lparr> attrs = [], group = [] \<rparr> Background 2 = True
   \<and> Handle \<lparr> attrs = [], group = [] \<rparr> Background \<lparr> Level = 2, Message = ''retrying'' \<rparr>
     = (None, [])"
  by (simp add: Enabled_def Handle_def LevelDebug_def LevelInfo_def LevelWarn_def LevelError_def)

text \<open>
  C10, amended. \<open>PtermHandler\<close> never disables a level and never fails a record, and it
  downgrades errors to warnings: \<open>Enabled\<close> is true for every context and level, and
  \<open>Handle\<close> returns a nil error for every record. A record at \<open>LevelDebug\<close> (-4) makes the
  one call \<open>message.Debug\<close> with its message, a record at \<open>LevelInfo\<close> (0) the one call
  \<open>message.Info\<close>, and a record at \<open>LevelWarn\<close> (4) or at \<open>LevelError\<close> (8) the one call
  \<open>message.Warn\<close>. A record at any other level makes no call. No record makes a call above
  the warning severity.
\<close>

theorem PtermHandler_warns_on_error:
  "Enabled h ctx l = True
   \<and> fst (Handle h ctx r) = None
   \<and> (Level r = LevelDebug \<longrightarrow> snd (Handle h ctx r) = [Debug (Message r)])
   \<and> (Level r = LevelInfo \<longrightarrow> snd (Handle h ctx r) = [Info (Message r)])
   \<and> (Level r = LevelWarn \<longrightarrow> snd (Handle h ctx r) = [Warn (Message r)])
   \<and> (Level r = LevelError \<longrightarrow> snd (Handle h ctx r) = [Warn (Message r)])
   \<and> (Level r \<notin> {LevelDebug, LevelInfo, LevelWarn, LevelError} \<longrightarrow>
        snd (Handle h ctx r) = [])
   \<and> (\<forall>m. Fatal m \<notin> set (snd (Handle h ctx r)))
   \<and> LevelDebug = -4 \<and> LevelInfo = 0 \<and> LevelWarn = 4 \<and> LevelError = 8"
  by (simp add: Enabled_def Handle_def LevelDebug_def LevelInfo_def LevelWarn_def LevelError_def)

text \<open>The amended C10 at records of the levels \<open>LevelError\<close> and \<open>LevelDebug\<close>.\<close>

theorem PtermHandler_warns_on_error_witness:
  "Level \<lparr> Level = 8, Message = ''disk full'' \<rparr> = LevelError
   \<and> Enabled \<lparr> attrs = [], group = [] \<rparr> Background 8 = True
   \<and> Handle \<lparr> attrs = [], group = [] \<rparr> Background \<lparr> Level = 8, Message = ''disk full'' \<rparr>
     = (None, [Warn ''disk full''])
   \<and> Level \<lparr> Level = - 4, Message = ''probing'' \<rparr> = LevelDebug
   \<and> Handle \<lparr> attrs = [], group = [] \<rparr> Background \<lparr> Level = - 4, Message = ''probing'' \<rparr>
     = (None, [Debug ''probing''])"
proof -
  have e: "Level \<lparr> Level = 8, Message = ''disk full'' \<rparr> = LevelError"
    by (simp add: LevelError_def)
  have d: "Level \<lparr> Level = - 4, Message = ''probing'' \<rparr> = LevelDebug"
    by (simp add: LevelDebug_def)
  note t = PtermHandler_warns_on_error
    [of "\<lparr> attrs = [], group = [] \<rparr>" Background 8 "\<lparr> Level = 8, Message = ''disk full'' \<rparr>"]
  note u = PtermHandler_warns_on_error
    [of "\<lparr> attrs = [], group = [] \<rparr>" Background 8 "\<lparr> Level = - 4, Message = ''probing'' \<rparr>"]
  have t1: "Enabled \<lparr> attrs = [], group = [] \<rparr> Background 8 = True"
    using t [THEN conjunct1] .
  have t2: "fst (Handle \<lparr> attrs = [], group = [] \<rparr> Background
      \<lparr> Level = 8, Message = ''disk full'' \<rparr>) = None"
    using t [THEN conjunct2, THEN conjunct1] .
  have t3: "snd (Handle \<lparr> attrs = [], group = [] \<rparr> Background
      \<lparr> Level = 8, Message = ''disk full'' \<rparr>) = [Warn ''disk full'']"
    using t [THEN conjunct2, THEN conjunct2, THEN conjunct2, THEN conjunct2, THEN conjunct2,
        THEN conjunct1, rule_format, OF e] by simp
  have u2: "fst (Handle \<lparr> attrs = [], group = [] \<rparr> Background
      \<lparr> Level = - 4, Message = ''probing'' \<rparr>) = None"
    using u [THEN conjunct2, THEN conjunct1] .
  have u3: "snd (Handle \<lparr> attrs = [], group = [] \<rparr> Background
      \<lparr> Level = - 4, Message = ''probing'' \<rparr>) = [Debug ''probing'']"
    using u [THEN conjunct2, THEN conjunct2, THEN conjunct1, rule_format, OF d] by simp
  show ?thesis using e d t1 t2 t3 u2 u3 by (simp only: prod_eq_iff fst_conv snd_conv simp_thms)
qed

subsection \<open>The overrides of the connect command\<close>

text \<open>
  C9. For \<open>connect\<close> with a named target, each of the five fields of the tunnel info is the
  flag's value when the flag differs from its registered default (the service resource
  type, the empty name, the zarf namespace, port 0) and the target's value otherwise; every
  other field of the tunnel info is untouched; flags that all have their defaults change
  nothing. Consequently a \<open>--namespace\<close> equal to the default, or a \<open>--local-port\<close> of 0,
  leaves the target's namespace, or local port, in place.
\<close>

theorem connectOverrides_frame:
  "ResourceType (connectOverrides svc ns zt ti) =
     (if ResourceType zt \<noteq> svc then ResourceType zt else ResourceType ti)
   \<and> ResourceName (connectOverrides svc ns zt ti) =
     (if ResourceName zt \<noteq> [] then ResourceName zt else ResourceName ti)
   \<and> TunnelInfo.Namespace (connectOverrides svc ns zt ti) =
     (if TunnelInfo.Namespace zt \<noteq> ns then TunnelInfo.Namespace zt else TunnelInfo.Namespace ti)
   \<and> LocalPort (connectOverrides svc ns zt ti) =
     (if LocalPort zt \<noteq> 0 then LocalPort zt else LocalPort ti)
   \<and> RemotePort (connectOverrides svc ns zt ti) =
     (if RemotePort zt \<noteq> 0 then RemotePort zt else RemotePort ti)
   \<and> TunnelInfo.more (connectOverrides svc ns zt ti) = TunnelInfo.more ti
   \<and> connectOverrides svc ns (flagDefaults svc ns) ti = ti
   \<and> (TunnelInfo.Namespace zt = ns \<longrightarrow>
        TunnelInfo.Namespace (connectOverrides svc ns zt ti) = TunnelInfo.Namespace ti)
   \<and> (LocalPort zt = 0 \<longrightarrow> LocalPort (connectOverrides svc ns zt ti) = LocalPort ti)"
  by (simp add: connectOverrides_def flagDefaults_def Let_def)

text \<open>
  C9 at the flags \<open>--name web --namespace zarf --local-port 0 --remote-port 8080\<close> and a
  target in the namespace \<open>git\<close> with local port 3000.
\<close>

theorem connectOverrides_frame_witness:
  "TunnelInfo.Namespace
     \<lparr> ResourceType = ''svc'', ResourceName = ''web'', Namespace = ''zarf'',
       LocalPort = 0, RemotePort = 8080 \<rparr> = ''zarf''
   \<and> connectOverrides ''svc'' ''zarf''
       \<lparr> ResourceType = ''svc'', ResourceName = ''web'', Namespace = ''zarf'',
         LocalPort = 0, RemotePort = 8080 \<rparr>
       \<lparr> ResourceType = ''svc'', ResourceName = ''zarf-gitea-http'', Namespace = ''git'',
         LocalPort = 3000, RemotePort = 3000 \<rparr>
     = \<lparr> ResourceType = ''svc'', ResourceName = ''web'', Namespace = ''git'',
         LocalPort = 3000, RemotePort = 8080 \<rparr>"
  using connectOverrides_frame
    [of "''svc''" "''zarf''"
        "\<lparr> ResourceType = ''svc'', ResourceName = ''web'', Namespace = ''zarf'',
           LocalPort = 0, RemotePort = 8080 \<rparr>"
        "\<lparr> ResourceType = ''svc'', ResourceName = ''zarf-gitea-http'', Namespace = ''git'',
           LocalPort = 3000, RemotePort = 3000 \<rparr>"]
  by (simp add: connectOverrides_def Let_def)

subsection \<open>The rewrite of image references and the admission hook\<close>

lemma funpow8: "(f ^^ 8) x = f (f (f (f (f (f (f (f x)))))))"
  by (simp add: numeral_eq_Suc)









lemmas crc_defs = ChecksumIEEE_def updateByte_def tableEntry_def shiftStep_def IEEE_def funpow8

lemmas ref_defs = checksumInput_def imagePath_def imageTag_def Let_def

lemma crc_nginx: "ChecksumIEEE ''docker.io/library/nginx'' = 3793515731"
  by (simp add: crc_defs)

lemma crc_busybox: "ChecksumIEEE ''docker.io/library/busybox'' = 2140033595"
  by (simp add: crc_defs)

lemma crc_alpine: "ChecksumIEEE ''docker.io/library/alpine'' = 1117969859"
  by (simp add: crc_defs)

lemma transform_nginx:
  "ImageTransformHost ''127.0.0.1:31999'' ''nginx'' =
     ''127.0.0.1:31999/library/nginx:latest-zarf-3793515731''"
proof -
  have "checksumInput ''nginx'' = ''docker.io/library/nginx''" by (simp add: ref_defs)
  moreover have "decimal 3793515731 = ''3793515731''" by (simp add: decimal.simps)
  ultimately show ?thesis
    by (simp add: ImageTransformHost_def crc_nginx) (simp add: ref_defs)
qed

lemma transform_busybox:
  "ImageTransformHost ''127.0.0.1:31999'' ''busybox'' =
     ''127.0.0.1:31999/library/busybox:latest-zarf-2140033595''"
proof -
  have "checksumInput ''busybox'' = ''docker.io/library/busybox''" by (simp add: ref_defs)
  moreover have "decimal 2140033595 = ''2140033595''" by (simp add: decimal.simps)
  ultimately show ?thesis
    by (simp add: ImageTransformHost_def crc_busybox) (simp add: ref_defs)
qed

lemma transform_alpine:
  "ImageTransformHost ''127.0.0.1:31999'' ''alpine'' =
     ''127.0.0.1:31999/library/alpine:latest-zarf-1117969859''"
proof -
  have "checksumInput ''alpine'' = ''docker.io/library/alpine''" by (simp add: ref_defs)
  moreover have "decimal 1117969859 = ''1117969859''" by (simp add: decimal.simps)
  ultimately show ?thesis
    by (simp add: ImageTransformHost_def crc_alpine) (simp add: ref_defs)
qed

lemma decimal_0: "decimal 0 = ''0''"
  by (simp add: decimal.simps)







lemma length_imagePatches: "length (imagePatches r f k imgs) = length imgs"
  by (induction imgs arbitrary: k) simp_all

lemma nth_imagePatches:
  "i < length imgs \<Longrightarrow>
   imagePatches r f k imgs ! i =
     ReplacePatchOperation (imagePathOf f (k + i)) (StringValue (ImageTransformHost r (imgs ! i)))"
proof (induction imgs arbitrary: k i)
  case Nil
  then show ?case by simp
next
  case (Cons a imgs)
  then show ?case by (cases i) simp_all
qed

lemma mutatePod_podWithLabel:
  "mutatePod ''127.0.0.1:31999'' podWithLabel =
     \<lparr> Allowed = True,
       PatchOps =
         [ReplacePatchOperation ''/spec/imagePullSecrets'' (LocalObjectReferences [''private-registry'']),
          ReplacePatchOperation ''/spec/initContainers/0/image''
            (StringValue ''127.0.0.1:31999/library/busybox:latest-zarf-2140033595''),
          ReplacePatchOperation ''/spec/ephemeralContainers/0/image''
            (StringValue ''127.0.0.1:31999/library/alpine:latest-zarf-1117969859''),
          ReplacePatchOperation ''/spec/containers/0/image''
            (StringValue ''127.0.0.1:31999/library/nginx:latest-zarf-3793515731''),
          ReplacePatchOperation ''/metadata/labels/zarf-agent'' (StringValue ''patched'')] \<rparr>"
  by (simp add: mutatePod_def podWithLabel_def hasPatchedLabel_def labelPatch_def
      imagePathOf_def decimal_0 transform_nginx transform_busybox transform_alpine
      ZarfImagePullSecretName_def)

lemma mutatePod_podNoLabels:
  "mutatePod ''127.0.0.1:31999'' podNoLabels =
     \<lparr> Allowed = True,
       PatchOps =
         [ReplacePatchOperation ''/spec/imagePullSecrets'' (LocalObjectReferences [''private-registry'']),
          ReplacePatchOperation ''/spec/containers/0/image''
            (StringValue ''127.0.0.1:31999/library/nginx:latest-zarf-3793515731''),
          AddPatchOperation ''/metadata/labels'' (StringMap [''zarf-agent'' \<mapsto> ''patched''])] \<rparr>"
  by (simp add: mutatePod_def podNoLabels_def hasPatchedLabel_def labelPatch_def
      imagePathOf_def decimal_0 transform_nginx ZarfImagePullSecretName_def)

lemma applyPatch_append:
  "applyPatch pod (xs @ ys) =
     (case applyPatch pod xs of None \<Rightarrow> None | Some p \<Rightarrow> applyPatch p ys)"
  by (induction xs arbitrary: pod) (simp_all split: option.splits)

lemma sameShape_refl: "sameShape p p"
  by (simp add: sameShape_def)

lemma sameShape_trans: "sameShape p q \<Longrightarrow> sameShape q r \<Longrightarrow> sameShape p r"
  by (simp add: sameShape_def)

lemma indexOfPath_hit: "k < n \<Longrightarrow> \<exists>i. indexOfPath f (imagePathOf f k) n = Some i"
proof -
  assume "k < n"
  then have "\<exists>x. x \<in> set [0..<n] \<and> imagePathOf f k = imagePathOf f x" by auto
  then have "find (\<lambda>i. imagePathOf f k = imagePathOf f i) [0..<n] \<noteq> None"
    by (simp only: find_None_iff not_not)
  then show ?thesis by (auto simp: indexOfPath_def)
qed

lemma indexOfPath_init_eph [simp]:
  "indexOfPath ''initContainers'' (imagePathOf ''ephemeralContainers'' k) n = None"
  by (simp add: indexOfPath_def find_None_iff imagePathOf_def)

lemma indexOfPath_init_ctr [simp]:
  "indexOfPath ''initContainers'' (imagePathOf ''containers'' k) n = None"
  by (simp add: indexOfPath_def find_None_iff imagePathOf_def)

lemma indexOfPath_eph_ctr [simp]:
  "indexOfPath ''ephemeralContainers'' (imagePathOf ''containers'' k) n = None"
  by (simp add: indexOfPath_def find_None_iff imagePathOf_def)

lemma imagePathOf_not_fixed [simp]:
  "imagePathOf ''initContainers'' k \<noteq> ''/spec/imagePullSecrets''"
  "imagePathOf ''initContainers'' k \<noteq> ''/metadata/labels''"
  "imagePathOf ''initContainers'' k \<noteq> ''/metadata/labels/zarf-agent''"
  "imagePathOf ''ephemeralContainers'' k \<noteq> ''/spec/imagePullSecrets''"
  "imagePathOf ''ephemeralContainers'' k \<noteq> ''/metadata/labels''"
  "imagePathOf ''ephemeralContainers'' k \<noteq> ''/metadata/labels/zarf-agent''"
  "imagePathOf ''containers'' k \<noteq> ''/spec/imagePullSecrets''"
  "imagePathOf ''containers'' k \<noteq> ''/metadata/labels''"
  "imagePathOf ''containers'' k \<noteq> ''/metadata/labels/zarf-agent''"
  by (simp_all add: imagePathOf_def)

lemma applyOperation_init:
  assumes "k < length (InitContainers (Spec pod))"
  shows "\<exists>pod'. applyOperation pod
            (ReplacePatchOperation (imagePathOf ''initContainers'' k) (StringValue v)) = Some pod'
          \<and> sameShape pod pod'"
proof -
  obtain i where "indexOfPath ''initContainers'' (imagePathOf ''initContainers'' k)
      (length (InitContainers (Spec pod))) = Some i"
    using indexOfPath_hit [OF assms] by blast
  then show ?thesis
    by (simp add: applyOperation_def ReplacePatchOperation_def Let_def sameShape_def setImageAt_def)
qed

lemma applyOperation_eph:
  assumes "k < length (EphemeralContainers (Spec pod))"
  shows "\<exists>pod'. applyOperation pod
            (ReplacePatchOperation (imagePathOf ''ephemeralContainers'' k) (StringValue v)) = Some pod'
          \<and> sameShape pod pod'"
proof -
  obtain i where "indexOfPath ''ephemeralContainers'' (imagePathOf ''ephemeralContainers'' k)
      (length (EphemeralContainers (Spec pod))) = Some i"
    using indexOfPath_hit [OF assms] by blast
  then show ?thesis
    by (simp add: applyOperation_def ReplacePatchOperation_def Let_def sameShape_def
        setEphemeralImageAt_def)
qed

lemma applyOperation_ctr:
  assumes "k < length (Containers (Spec pod))"
  shows "\<exists>pod'. applyOperation pod
            (ReplacePatchOperation (imagePathOf ''containers'' k) (StringValue v)) = Some pod'
          \<and> sameShape pod pod'"
proof -
  obtain i where "indexOfPath ''containers'' (imagePathOf ''containers'' k)
      (length (Containers (Spec pod))) = Some i"
    using indexOfPath_hit [OF assms] by blast
  then show ?thesis
    by (simp add: applyOperation_def ReplacePatchOperation_def Let_def sameShape_def setImageAt_def)
qed

lemma applyPatch_init:
  "k + length imgs \<le> length (InitContainers (Spec pod)) \<Longrightarrow>
   \<exists>pod'. applyPatch pod (imagePatches r ''initContainers'' k imgs) = Some pod' \<and> sameShape pod pod'"
proof (induction imgs arbitrary: k pod)
  case Nil
  then show ?case by (simp add: sameShape_refl)
next
  case (Cons a imgs)
  then have "k < length (InitContainers (Spec pod))" by simp
  from applyOperation_init [OF this] obtain p where
    p: "applyOperation pod (ReplacePatchOperation (imagePathOf ''initContainers'' k)
          (StringValue (ImageTransformHost r a))) = Some p" "sameShape pod p"
    by blast
  from Cons.prems p(2) have "Suc k + length imgs \<le> length (InitContainers (Spec p))"
    by (simp add: sameShape_def)
  from Cons.IH [OF this] obtain q where
    q: "applyPatch p (imagePatches r ''initContainers'' (Suc k) imgs) = Some q" "sameShape p q"
    by blast
  show ?case using p q by (auto intro: sameShape_trans)
qed

lemma applyPatch_eph:
  "k + length imgs \<le> length (EphemeralContainers (Spec pod)) \<Longrightarrow>
   \<exists>pod'. applyPatch pod (imagePatches r ''ephemeralContainers'' k imgs) = Some pod'
     \<and> sameShape pod pod'"
proof (induction imgs arbitrary: k pod)
  case Nil
  then show ?case by (simp add: sameShape_refl)
next
  case (Cons a imgs)
  then have "k < length (EphemeralContainers (Spec pod))" by simp
  from applyOperation_eph [OF this] obtain p where
    p: "applyOperation pod (ReplacePatchOperation (imagePathOf ''ephemeralContainers'' k)
          (StringValue (ImageTransformHost r a))) = Some p" "sameShape pod p"
    by blast
  from Cons.prems p(2) have "Suc k + length imgs \<le> length (EphemeralContainers (Spec p))"
    by (simp add: sameShape_def)
  from Cons.IH [OF this] obtain q where
    q: "applyPatch p (imagePatches r ''ephemeralContainers'' (Suc k) imgs) = Some q" "sameShape p q"
    by blast
  show ?case using p q by (auto intro: sameShape_trans)
qed

lemma applyPatch_ctr:
  "k + length imgs \<le> length (Containers (Spec pod)) \<Longrightarrow>
   \<exists>pod'. applyPatch pod (imagePatches r ''containers'' k imgs) = Some pod' \<and> sameShape pod pod'"
proof (induction imgs arbitrary: k pod)
  case Nil
  then show ?case by (simp add: sameShape_refl)
next
  case (Cons a imgs)
  then have "k < length (Containers (Spec pod))" by simp
  from applyOperation_ctr [OF this] obtain p where
    p: "applyOperation pod (ReplacePatchOperation (imagePathOf ''containers'' k)
          (StringValue (ImageTransformHost r a))) = Some p" "sameShape pod p"
    by blast
  from Cons.prems p(2) have "Suc k + length imgs \<le> length (Containers (Spec p))"
    by (simp add: sameShape_def)
  from Cons.IH [OF this] obtain q where
    q: "applyPatch p (imagePatches r ''containers'' (Suc k) imgs) = Some q" "sameShape p q"
    by blast
  show ?case using p q by (auto intro: sameShape_trans)
qed

lemma applyOperation_secrets:
  "\<exists>pod'. applyOperation pod
       (ReplacePatchOperation ''/spec/imagePullSecrets'' (LocalObjectReferences ns)) = Some pod'
     \<and> sameShape pod pod'"
  by (simp add: applyOperation_def ReplacePatchOperation_def Let_def sameShape_def)

lemma applyOperation_label:
  "\<exists>pod'. applyOperation pod (labelPatch (Labels pod)) = Some pod' \<and> hasPatchedLabel pod'"
  by (cases "Labels pod")
     (simp_all add: applyOperation_def labelPatch_def AddPatchOperation_def
        ReplacePatchOperation_def Let_def hasPatchedLabel_def)

lemma admit_unpatched:
  assumes "\<not> hasPatchedLabel pod"
  shows "\<exists>pod'. admit r pod = Some pod' \<and> hasPatchedLabel pod'"
proof -
  obtain p1 where p1: "applyOperation pod (ReplacePatchOperation ''/spec/imagePullSecrets''
        (LocalObjectReferences [ZarfImagePullSecretName])) = Some p1" "sameShape pod p1"
    using applyOperation_secrets by blast
  have "0 + length (map Container.Image (InitContainers (Spec pod)))
          \<le> length (InitContainers (Spec p1))"
    using p1(2) by (simp add: sameShape_def)
  from applyPatch_init [OF this] obtain p2 where
    p2: "applyPatch p1 (imagePatches r ''initContainers'' 0
           (map Container.Image (InitContainers (Spec pod)))) = Some p2" "sameShape p1 p2"
    by blast
  have "0 + length (map EphemeralContainer.Image (EphemeralContainers (Spec pod)))
          \<le> length (EphemeralContainers (Spec p2))"
    using p1(2) p2(2) by (simp add: sameShape_def)
  from applyPatch_eph [OF this] obtain p3 where
    p3: "applyPatch p2 (imagePatches r ''ephemeralContainers'' 0
           (map EphemeralContainer.Image (EphemeralContainers (Spec pod)))) = Some p3"
        "sameShape p2 p3"
    by blast
  have "0 + length (map Container.Image (Containers (Spec pod)))
          \<le> length (Containers (Spec p3))"
    using p1(2) p2(2) p3(2) by (simp add: sameShape_def)
  from applyPatch_ctr [OF this] obtain p4 where
    p4: "applyPatch p3 (imagePatches r ''containers'' 0
           (map Container.Image (Containers (Spec pod)))) = Some p4" "sameShape p3 p4"
    by blast
  have l: "Labels p4 = Labels pod"
    using p1(2) p2(2) p3(2) p4(2) by (simp add: sameShape_def)
  obtain p5 where p5: "applyOperation p4 (labelPatch (Labels pod)) = Some p5" "hasPatchedLabel p5"
    using applyOperation_label [of p4] l by auto
  have "admit r pod = Some p5"
    using assms p1(1) p2(1) p3(1) p4(1) p5(1)
    by (simp add: admit_def mutatePod_def applyPatch_append)
  with p5(2) show ?thesis by blast
qed

lemma admit_podNoLabels:
  "admit ''127.0.0.1:31999'' podNoLabels =
     Some \<lparr> Labels = Some [''zarf-agent'' \<mapsto> ''patched''],
            Spec = \<lparr> InitContainers = [],
                Containers = [\<lparr> Container.Name = [],
                   Image = ''127.0.0.1:31999/library/nginx:latest-zarf-3793515731'' \<rparr>],
                EphemeralContainers = [], ImagePullSecrets = [''private-registry''] \<rparr> \<rparr>"
  by (simp add: admit_def mutatePod_podNoLabels)
     (simp add: podNoLabels_def applyOperation_def ReplacePatchOperation_def AddPatchOperation_def
        indexOfPath_def imagePathOf_def decimal_0 setImageAt_def Let_def)

lemma mem_imagePatches:
  "i < length imgs \<Longrightarrow>
   ReplacePatchOperation (imagePathOf f (k + i)) (StringValue (ImageTransformHost r (imgs ! i)))
     \<in> set (imagePatches r f k imgs)"
  using nth_imagePatches [of i imgs r f k] nth_mem [of i "imagePatches r f k imgs"]
  by (simp add: length_imagePatches)

lemma path_imagePatches:
  "operation \<in> set (imagePatches r f k imgs) \<Longrightarrow>
   \<exists>j. PatchOperation.Path operation = imagePathOf f j"
  by (induction imgs arbitrary: k) (auto simp: ReplacePatchOperation_def)




text \<open>
  C3, as stated, fails. The pod without labels and with the one container \<open>nginx\<close> does not
  carry the label \<open>zarf-agent=patched\<close>, and its patch has three operations, the last of
  which is an \<open>add\<close>.
\<close>

theorem mutatePod_three_operations_counterexample:
  "\<not> hasPatchedLabel podNoLabels
   \<and> length (PatchOps (mutatePod ''127.0.0.1:31999'' podNoLabels)) = 3
   \<and> Op (last (PatchOps (mutatePod ''127.0.0.1:31999'' podNoLabels))) = ''add''"
  by (simp add: mutatePod_podNoLabels) (simp add: hasPatchedLabel_def podNoLabels_def AddPatchOperation_def)

text \<open>
  C3, amended. Every pod that does not carry the label \<open>zarf-agent=patched\<close> is allowed,
  with a patch in this fixed order: the replacement of \<open>/spec/imagePullSecrets\<close> by the
  reference to \<open>private-registry\<close>; one replacement of the image per init container, then
  per ephemeral container, then per container, each by rising index; and last the label
  operation, which for a pod with labels is the replacement of
  \<open>/metadata/labels/zarf-agent\<close> by \<open>patched\<close>. The patch has two operations more than the
  pod has containers. For the pod with the labels \<open>{should-be: mutated}\<close>, the init
  container \<open>busybox\<close>, the ephemeral container \<open>alpine\<close> and the container \<open>nginx\<close>, at the
  registry \<open>127.0.0.1:31999\<close>, these are exactly the five operations of the claim.
\<close>

theorem mutatePod_patch_order:
  fixes pod :: Pod and reg :: string
  defines "ops \<equiv> PatchOps (mutatePod reg pod)"
    and "inits \<equiv> InitContainers (Spec pod)"
    and "ephs \<equiv> EphemeralContainers (Spec pod)"
    and "ctrs \<equiv> Containers (Spec pod)"
  shows
  "(\<not> hasPatchedLabel pod \<longrightarrow>
      Allowed (mutatePod reg pod)
      \<and> length ops = 2 + length inits + length ephs + length ctrs
      \<and> ops ! 0 = ReplacePatchOperation ''/spec/imagePullSecrets''
                     (LocalObjectReferences [''private-registry''])
      \<and> (\<forall>i < length inits. ops ! (1 + i) =
            ReplacePatchOperation (imagePathOf ''initContainers'' i)
              (StringValue (ImageTransformHost reg (Container.Image (inits ! i)))))
      \<and> (\<forall>i < length ephs. ops ! (1 + length inits + i) =
            ReplacePatchOperation (imagePathOf ''ephemeralContainers'' i)
              (StringValue (ImageTransformHost reg (EphemeralContainer.Image (ephs ! i)))))
      \<and> (\<forall>i < length ctrs. ops ! (1 + length inits + length ephs + i) =
            ReplacePatchOperation (imagePathOf ''containers'' i)
              (StringValue (ImageTransformHost reg (Container.Image (ctrs ! i)))))
      \<and> ops ! (1 + length inits + length ephs + length ctrs) = labelPatch (Labels pod)
      \<and> (Labels pod \<noteq> None \<longrightarrow>
           labelPatch (Labels pod) =
             ReplacePatchOperation ''/metadata/labels/zarf-agent'' (StringValue ''patched'')))
   \<and> mutatePod ''127.0.0.1:31999'' podWithLabel =
       \<lparr> Allowed = True,
         PatchOps =
           [ReplacePatchOperation ''/spec/imagePullSecrets''
              (LocalObjectReferences [''private-registry'']),
            ReplacePatchOperation ''/spec/initContainers/0/image''
              (StringValue ''127.0.0.1:31999/library/busybox:latest-zarf-2140033595''),
            ReplacePatchOperation ''/spec/ephemeralContainers/0/image''
              (StringValue ''127.0.0.1:31999/library/alpine:latest-zarf-1117969859''),
            ReplacePatchOperation ''/spec/containers/0/image''
              (StringValue ''127.0.0.1:31999/library/nginx:latest-zarf-3793515731''),
            ReplacePatchOperation ''/metadata/labels/zarf-agent'' (StringValue ''patched'')] \<rparr>"
proof (intro conjI impI allI)
  show "mutatePod ''127.0.0.1:31999'' podWithLabel =
       \<lparr> Allowed = True,
         PatchOps =
           [ReplacePatchOperation ''/spec/imagePullSecrets''
              (LocalObjectReferences [''private-registry'']),
            ReplacePatchOperation ''/spec/initContainers/0/image''
              (StringValue ''127.0.0.1:31999/library/busybox:latest-zarf-2140033595''),
            ReplacePatchOperation ''/spec/ephemeralContainers/0/image''
              (StringValue ''127.0.0.1:31999/library/alpine:latest-zarf-1117969859''),
            ReplacePatchOperation ''/spec/containers/0/image''
              (StringValue ''127.0.0.1:31999/library/nginx:latest-zarf-3793515731''),
            ReplacePatchOperation ''/metadata/labels/zarf-agent'' (StringValue ''patched'')] \<rparr>"
    by (rule mutatePod_podWithLabel)
next
  assume "\<not> hasPatchedLabel pod"
  then show "Allowed (mutatePod reg pod)" by (simp add: mutatePod_def)
next
  assume "\<not> hasPatchedLabel pod"
  then show "length ops = 2 + length inits + length ephs + length ctrs"
    by (simp add: ops_def inits_def ephs_def ctrs_def mutatePod_def length_imagePatches)
next
  assume "\<not> hasPatchedLabel pod"
  then show "ops ! 0 = ReplacePatchOperation ''/spec/imagePullSecrets''
                     (LocalObjectReferences [''private-registry''])"
    by (simp add: ops_def mutatePod_def ZarfImagePullSecretName_def)
next
  fix i assume "\<not> hasPatchedLabel pod" "i < length inits"
  then show "ops ! (1 + i) =
            ReplacePatchOperation (imagePathOf ''initContainers'' i)
              (StringValue (ImageTransformHost reg (Container.Image (inits ! i))))"
    by (simp add: ops_def inits_def mutatePod_def nth_append length_imagePatches nth_imagePatches)
next
  fix i assume "\<not> hasPatchedLabel pod" "i < length ephs"
  then show "ops ! (1 + length inits + i) =
            ReplacePatchOperation (imagePathOf ''ephemeralContainers'' i)
              (StringValue (ImageTransformHost reg (EphemeralContainer.Image (ephs ! i))))"
    by (simp add: ops_def inits_def ephs_def mutatePod_def nth_append length_imagePatches
        nth_imagePatches)
next
  fix i assume "\<not> hasPatchedLabel pod" "i < length ctrs"
  then show "ops ! (1 + length inits + length ephs + i) =
            ReplacePatchOperation (imagePathOf ''containers'' i)
              (StringValue (ImageTransformHost reg (Container.Image (ctrs ! i))))"
    by (simp add: ops_def inits_def ephs_def ctrs_def mutatePod_def nth_append
        length_imagePatches nth_imagePatches)
next
  assume "\<not> hasPatchedLabel pod"
  then show "ops ! (1 + length inits + length ephs + length ctrs) = labelPatch (Labels pod)"
    by (simp add: ops_def inits_def ephs_def ctrs_def mutatePod_def nth_append
        length_imagePatches)
next
  assume "Labels pod \<noteq> None"
  then show "labelPatch (Labels pod) =
             ReplacePatchOperation ''/metadata/labels/zarf-agent'' (StringValue ''patched'')"
    by (auto simp: labelPatch_def)
qed

text \<open>
  The amended C3 at the pod of the first case of the test.
\<close>

theorem mutatePod_patch_order_witness:
  "\<not> hasPatchedLabel podWithLabel
   \<and> Labels podWithLabel \<noteq> None
   \<and> Allowed (mutatePod ''127.0.0.1:31999'' podWithLabel)
   \<and> length (PatchOps (mutatePod ''127.0.0.1:31999'' podWithLabel)) = 5
   \<and> PatchOps (mutatePod ''127.0.0.1:31999'' podWithLabel) ! 4 =
       ReplacePatchOperation ''/metadata/labels/zarf-agent'' (StringValue ''patched'')"
proof -
  have u: "\<not> hasPatchedLabel podWithLabel" "Labels podWithLabel \<noteq> None"
    by (simp_all add: hasPatchedLabel_def podWithLabel_def)
  have n: "length (InitContainers (Spec podWithLabel)) = 1"
    "length (EphemeralContainers (Spec podWithLabel)) = 1"
    "length (Containers (Spec podWithLabel)) = 1"
    by (simp_all add: podWithLabel_def)
  show ?thesis
    using u mutatePod_patch_order [of podWithLabel "''127.0.0.1:31999''"]
    by (simp add: n)
qed

text \<open>
  C5. Every pod whose map of labels is nil is allowed, and its patch applies to the pod
  without an error. The patch starts with the replacement of \<open>/spec/imagePullSecrets\<close>,
  holds the replacement of the image of every init container, ephemeral container and
  container by its rewritten reference, and ends with an \<open>add\<close> of \<open>/metadata/labels\<close> with
  the map \<open>{zarf-agent: patched}\<close>; no operation addresses the single label path. For the
  pod with the one container \<open>nginx\<close> at the registry \<open>127.0.0.1:31999\<close>, the patch is the
  three operations of the claim.
\<close>

theorem mutatePod_nil_labels:
  fixes pod :: Pod and reg :: string
  defines "ops \<equiv> PatchOps (mutatePod reg pod)"
  shows
  "(Labels pod = None \<longrightarrow>
      Allowed (mutatePod reg pod)
      \<and> hd ops = ReplacePatchOperation ''/spec/imagePullSecrets''
                   (LocalObjectReferences [''private-registry''])
      \<and> (\<forall>i < length (InitContainers (Spec pod)).
            ReplacePatchOperation (imagePathOf ''initContainers'' i)
              (StringValue (ImageTransformHost reg (Container.Image (InitContainers (Spec pod) ! i))))
            \<in> set ops)
      \<and> (\<forall>i < length (EphemeralContainers (Spec pod)).
            ReplacePatchOperation (imagePathOf ''ephemeralContainers'' i)
              (StringValue (ImageTransformHost reg
                 (EphemeralContainer.Image (EphemeralContainers (Spec pod) ! i))))
            \<in> set ops)
      \<and> (\<forall>i < length (Containers (Spec pod)).
            ReplacePatchOperation (imagePathOf ''containers'' i)
              (StringValue (ImageTransformHost reg (Container.Image (Containers (Spec pod) ! i))))
            \<in> set ops)
      \<and> last ops = AddPatchOperation ''/metadata/labels'' (StringMap [''zarf-agent'' \<mapsto> ''patched''])
      \<and> (\<forall>operation \<in> set ops. PatchOperation.Path operation \<noteq> ''/metadata/labels/zarf-agent'')
      \<and> (\<exists>pod'. admit reg pod = Some pod'))
   \<and> mutatePod ''127.0.0.1:31999'' podNoLabels =
       \<lparr> Allowed = True,
         PatchOps =
           [ReplacePatchOperation ''/spec/imagePullSecrets''
              (LocalObjectReferences [''private-registry'']),
            ReplacePatchOperation ''/spec/containers/0/image''
              (StringValue ''127.0.0.1:31999/library/nginx:latest-zarf-3793515731''),
            AddPatchOperation ''/metadata/labels'' (StringMap [''zarf-agent'' \<mapsto> ''patched''])] \<rparr>"
proof (intro conjI impI allI ballI)
  show "mutatePod ''127.0.0.1:31999'' podNoLabels =
       \<lparr> Allowed = True,
         PatchOps =
           [ReplacePatchOperation ''/spec/imagePullSecrets''
              (LocalObjectReferences [''private-registry'']),
            ReplacePatchOperation ''/spec/containers/0/image''
              (StringValue ''127.0.0.1:31999/library/nginx:latest-zarf-3793515731''),
            AddPatchOperation ''/metadata/labels'' (StringMap [''zarf-agent'' \<mapsto> ''patched''])] \<rparr>"
    by (rule mutatePod_podNoLabels)
next
  assume "Labels pod = None"
  then show "Allowed (mutatePod reg pod)" by (simp add: mutatePod_def)
next
  assume "Labels pod = None"
  then show "hd ops = ReplacePatchOperation ''/spec/imagePullSecrets''
                   (LocalObjectReferences [''private-registry''])"
    by (simp add: ops_def mutatePod_def hasPatchedLabel_def ZarfImagePullSecretName_def)
next
  fix i assume "Labels pod = None" "i < length (InitContainers (Spec pod))"
  then show "ReplacePatchOperation (imagePathOf ''initContainers'' i)
              (StringValue (ImageTransformHost reg (Container.Image (InitContainers (Spec pod) ! i))))
            \<in> set ops"
    using mem_imagePatches [of i "map Container.Image (InitContainers (Spec pod))"
        "''initContainers''" 0 reg]
    by (simp add: ops_def mutatePod_def hasPatchedLabel_def)
next
  fix i assume "Labels pod = None" "i < length (EphemeralContainers (Spec pod))"
  then show "ReplacePatchOperation (imagePathOf ''ephemeralContainers'' i)
              (StringValue (ImageTransformHost reg
                 (EphemeralContainer.Image (EphemeralContainers (Spec pod) ! i))))
            \<in> set ops"
    using mem_imagePatches [of i "map EphemeralContainer.Image (EphemeralContainers (Spec pod))"
        "''ephemeralContainers''" 0 reg]
    by (simp add: ops_def mutatePod_def hasPatchedLabel_def)
next
  fix i assume "Labels pod = None" "i < length (Containers (Spec pod))"
  then show "ReplacePatchOperation (imagePathOf ''containers'' i)
              (StringValue (ImageTransformHost reg (Container.Image (Containers (Spec pod) ! i))))
            \<in> set ops"
    using mem_imagePatches [of i "map Container.Image (Containers (Spec pod))"
        "''containers''" 0 reg]
    by (simp add: ops_def mutatePod_def hasPatchedLabel_def)
next
  assume "Labels pod = None"
  then show "last ops =
      AddPatchOperation ''/metadata/labels'' (StringMap [''zarf-agent'' \<mapsto> ''patched''])"
    by (simp add: ops_def mutatePod_def hasPatchedLabel_def labelPatch_def)
next
  fix operation assume n: "Labels pod = None" and m: "operation \<in> set ops"
  from m n have
    "operation = ReplacePatchOperation ''/spec/imagePullSecrets''
         (LocalObjectReferences [ZarfImagePullSecretName])
     \<or> operation \<in> set (imagePatches reg ''initContainers'' 0
           (map Container.Image (InitContainers (Spec pod))))
     \<or> operation \<in> set (imagePatches reg ''ephemeralContainers'' 0
           (map EphemeralContainer.Image (EphemeralContainers (Spec pod))))
     \<or> operation \<in> set (imagePatches reg ''containers'' 0
           (map Container.Image (Containers (Spec pod))))
     \<or> operation = AddPatchOperation ''/metadata/labels'' (StringMap [''zarf-agent'' \<mapsto> ''patched''])"
    by (auto simp: ops_def mutatePod_def hasPatchedLabel_def labelPatch_def)
  then show "PatchOperation.Path operation \<noteq> ''/metadata/labels/zarf-agent''"
  proof (elim disjE)
    assume "operation = ReplacePatchOperation ''/spec/imagePullSecrets''
         (LocalObjectReferences [ZarfImagePullSecretName])"
    then show ?thesis by (simp add: ReplacePatchOperation_def)
  next
    assume "operation \<in> set (imagePatches reg ''initContainers'' 0
           (map Container.Image (InitContainers (Spec pod))))"
    from path_imagePatches [OF this] show ?thesis by (auto simp: imagePathOf_def)
  next
    assume "operation \<in> set (imagePatches reg ''ephemeralContainers'' 0
           (map EphemeralContainer.Image (EphemeralContainers (Spec pod))))"
    from path_imagePatches [OF this] show ?thesis by (auto simp: imagePathOf_def)
  next
    assume "operation \<in> set (imagePatches reg ''containers'' 0
           (map Container.Image (Containers (Spec pod))))"
    from path_imagePatches [OF this] show ?thesis by (auto simp: imagePathOf_def)
  next
    assume "operation = AddPatchOperation ''/metadata/labels''
        (StringMap [''zarf-agent'' \<mapsto> ''patched''])"
    then show ?thesis by (simp add: AddPatchOperation_def)
  qed
next
  assume "Labels pod = None"
  then have "\<not> hasPatchedLabel pod" by (simp add: hasPatchedLabel_def)
  from admit_unpatched [OF this] show "\<exists>pod'. admit reg pod = Some pod'" by blast
qed

text \<open>
  C5 at the pod of the third case of the test.
\<close>

theorem mutatePod_nil_labels_witness:
  "Labels podNoLabels = None
   \<and> Allowed (mutatePod ''127.0.0.1:31999'' podNoLabels)
   \<and> last (PatchOps (mutatePod ''127.0.0.1:31999'' podNoLabels)) =
       AddPatchOperation ''/metadata/labels'' (StringMap [''zarf-agent'' \<mapsto> ''patched''])"
proof -
  have n: "Labels podNoLabels = None" by (simp add: podNoLabels_def)
  show ?thesis using n mutatePod_nil_labels [of podNoLabels "''127.0.0.1:31999''"] by simp
qed

text \<open>
  C4. The hook is idempotent. Every pod that carries the label \<open>zarf-agent=patched\<close> is
  allowed with an empty patch. For every pod, the first admission succeeds and gives a pod
  that carries the label; a second admission of that pod returns an empty patch and leaves
  the pod as it is.
\<close>

theorem mutatePod_idempotent:
  "(hasPatchedLabel pod \<longrightarrow> mutatePod r pod = \<lparr> Allowed = True, PatchOps = [] \<rparr>)
   \<and> (\<exists>pod'. admit r pod = Some pod' \<and> hasPatchedLabel pod'
         \<and> mutatePod r pod' = \<lparr> Allowed = True, PatchOps = [] \<rparr>
         \<and> admit r pod' = Some pod')"
proof (intro conjI impI)
  assume "hasPatchedLabel pod"
  then show "mutatePod r pod = \<lparr> Allowed = True, PatchOps = [] \<rparr>"
    by (simp add: mutatePod_def)
next
  have "\<exists>pod'. admit r pod = Some pod' \<and> hasPatchedLabel pod'"
  proof (cases "hasPatchedLabel pod")
    case True
    then show ?thesis by (simp add: admit_def mutatePod_def)
  next
    case False
    then show ?thesis by (rule admit_unpatched)
  qed
  then obtain pod' where "admit r pod = Some pod'" "hasPatchedLabel pod'" by blast
  then show "\<exists>pod'. admit r pod = Some pod' \<and> hasPatchedLabel pod'
         \<and> mutatePod r pod' = \<lparr> Allowed = True, PatchOps = [] \<rparr>
         \<and> admit r pod' = Some pod'"
    by (auto simp: admit_def mutatePod_def)
qed

text \<open>
  C4 at the pod of the second case of the test.
\<close>

theorem mutatePod_idempotent_witness:
  "hasPatchedLabel podPatched
   \<and> mutatePod ''127.0.0.1:31999'' podPatched = \<lparr> Allowed = True, PatchOps = [] \<rparr>"
proof -
  have p: "hasPatchedLabel podPatched" by (simp add: hasPatchedLabel_def podPatched_def)
  show ?thesis using p mutatePod_idempotent [of podPatched "''127.0.0.1:31999''"] by simp
qed

end
